theory Spec2Isabelle
  imports Complex_Main "HOL-Library.Char_ord" "HOL-Library.List_Lexorder"
    "HOL-Library.Product_Lexorder"
begin

section \<open>Tables\<close>

text \<open>
  A pandas cell is a string, a number or the missing marker. Numbers are exact rationals
  that stand for the values of \<^verbatim>\<open>int64\<close>, \<^verbatim>\<open>float64\<close> and \<^verbatim>\<open>bool\<close> columns up to Python's
  \<^verbatim>\<open>==\<close> (so \<^verbatim>\<open>1\<close>, \<^verbatim>\<open>1.0\<close> and \<^verbatim>\<open>True\<close> are all \<open>Num 1\<close>); rounding and overflow of
  floating point are not modelled. \<open>PInf\<close> and \<open>NInf\<close> are the two infinities, which
  \<^verbatim>\<open>read_csv\<close> accepts and a division by zero produces; \<open>NaN\<close> is the missing marker.
\<close>

datatype cell = Str string | Num rat | PInf | NInf | NaN

text \<open>
  A \<^verbatim>\<open>DataFrame\<close> with a default \<^verbatim>\<open>RangeIndex\<close>: the length of the index and the columns
  in their order, each a name and its values.
\<close>

record dataframe =
  nrows :: nat
  cols :: "(string \<times> cell list) list"

definition names :: "dataframe \<Rightarrow> string list" where
  "names df = map fst (cols df)"

text \<open>
  A record set: the column names are distinct (as \<^verbatim>\<open>read_csv\<close> ensures) and every
  column has one value per row.
\<close>

definition well_formed :: "dataframe \<Rightarrow> bool" where
  "well_formed df \<longleftrightarrow> distinct (names df) \<and> list_all (\<lambda>(n, vs). length vs = nrows df) (cols df)"

datatype error = KeyError "string list" | TypeError | ValueError

definition ebind :: "error + 'a \<Rightarrow> ('a \<Rightarrow> error + 'b) \<Rightarrow> error + 'b" where
  "ebind m f = (case m of Inl e \<Rightarrow> Inl e | Inr x \<Rightarrow> f x)"

text \<open>\<^verbatim>\<open>df[k]\<close>: the column, or \<^verbatim>\<open>KeyError\<close> naming the key.\<close>

definition getitem :: "dataframe \<Rightarrow> string \<Rightarrow> error + cell list" where
  "getitem df k = (case map_of (cols df) k of None \<Rightarrow> Inl (KeyError [k]) | Some vs \<Rightarrow> Inr vs)"

text \<open>
  \<^verbatim>\<open>df[k] = series\<close>: an existing column is overwritten where it stands, a new one is
  appended as the last column.
\<close>

definition setitem :: "dataframe \<Rightarrow> string \<Rightarrow> cell list \<Rightarrow> dataframe" where
  "setitem df k vs =
     df\<lparr>cols := (if k \<in> set (names df)
                  then map (\<lambda>(n, ws). if n = k then (n, vs) else (n, ws)) (cols df)
                  else cols df @ [(k, vs)])\<rparr>"

subsection \<open>Ordinal encoding\<close>

definition sleep_quality_mapping :: "(string \<times> int) list" where
  "sleep_quality_mapping = [(''poor'', 0), (''average'', 1), (''good'', 2)]"

definition facility_rating_mapping :: "(string \<times> int) list" where
  "facility_rating_mapping = [(''low'', 0), (''medium'', 1), (''high'', 2)]"

definition exam_difficulty_mapping :: "(string \<times> int) list" where
  "exam_difficulty_mapping = [(''easy'', 0), (''moderate'', 1), (''hard'', 2)]"

text \<open>
  \<^verbatim>\<open>Series.map(dict)\<close> on one value: the dictionary's value for a key, the missing marker
  for everything else (the dictionaries here have string keys only).
\<close>

definition encode :: "(string \<times> int) list \<Rightarrow> cell \<Rightarrow> cell" where
  "encode m c =
     (case c of
        Str s \<Rightarrow> (case map_of m s of Some k \<Rightarrow> Num (of_int k) | None \<Rightarrow> NaN)
      | _ \<Rightarrow> NaN)"

definition series_map :: "(string \<times> int) list \<Rightarrow> cell list \<Rightarrow> cell list" where
  "series_map m vs = map (encode m) vs"

subsection \<open>One-hot encoding\<close>

text \<open>
  The categories of a column, as \<^verbatim>\<open>factorize_from_iterable\<close> returns them: the distinct
  values that are not missing, sorted. Numbers sort before strings (pandas'
  \<^verbatim>\<open>_sort_mixed\<close>), strings by code point, which for UTF-8 is the order of their bytes.
\<close>

fun cell_key :: "cell \<Rightarrow> nat \<times> rat \<times> string" where
  "cell_key NInf = (0, 0, [])"
| "cell_key (Num q) = (1, q, [])"
| "cell_key PInf = (2, 0, [])"
| "cell_key (Str s) = (3, 0, s)"
| "cell_key NaN = (4, 0, [])"

definition levels :: "cell list \<Rightarrow> cell list" where
  "levels vs = sort_key cell_key (remdups (filter (\<lambda>c. c \<noteq> NaN) vs))"

text \<open>
  The text of a category in a column name, \<^verbatim>\<open>f"{level}"\<close>. How Python prints a number
  depends on its dtype, which the model does not keep, so it is the parameter \<open>fmt\<close>.
\<close>

fun level_str :: "(rat \<Rightarrow> string) \<Rightarrow> cell \<Rightarrow> string" where
  "level_str fmt (Str s) = s"
| "level_str fmt (Num q) = fmt q"
| "level_str fmt PInf = ''inf''"
| "level_str fmt NInf = ''-inf''"
| "level_str fmt NaN = ''nan''"

definition dummy_name :: "(rat \<Rightarrow> string) \<Rightarrow> string \<Rightarrow> cell \<Rightarrow> string" where
  "dummy_name fmt prefix l = prefix @ ''_'' @ level_str fmt l"

text \<open>An indicator cell: 1 (\<^verbatim>\<open>True\<close>) or 0 (\<^verbatim>\<open>False\<close>).\<close>

definition indicator :: "bool \<Rightarrow> cell" where
  "indicator b = Num (if b then 1 else 0)"

text \<open>
  \<^verbatim>\<open>_get_dummies_1d(data, prefix, prefix_sep="_", drop_first=True)\<close>: no column when
  there is no category or only one; otherwise one column per category but the first.
  A row whose value is missing has code -1 and is 0 in every column.
\<close>

definition get_dummies_1d :: "(rat \<Rightarrow> string) \<Rightarrow> cell list \<Rightarrow> string \<Rightarrow> (string \<times> cell list) list" where
  "get_dummies_1d fmt vs prefix =
     (let lv = levels vs in
      if length lv = 0 then []
      else if length lv = 1 then []
      else map (\<lambda>l. (dummy_name fmt prefix l, map (\<lambda>c. indicator (c = l)) vs)) (drop 1 lv))"

definition column :: "dataframe \<Rightarrow> string \<Rightarrow> cell list" where
  "column df k = (case map_of (cols df) k of Some vs \<Rightarrow> vs | None \<Rightarrow> [])"

text \<open>
  \<^verbatim>\<open>pd.get_dummies(data, columns=columns, prefix=prefix, drop_first=True)\<close>:
  \<^verbatim>\<open>data[columns]\<close> raises \<^verbatim>\<open>KeyError\<close> with the names that are not columns; a prefix list
  of another length is a \<^verbatim>\<open>ValueError\<close>; the result is the other columns in their order,
  followed by the indicator columns of each encoded column, in the order of \<open>columns\<close>.
\<close>

definition get_dummies ::
  "(rat \<Rightarrow> string) \<Rightarrow> dataframe \<Rightarrow> string list \<Rightarrow> string list \<Rightarrow> error + dataframe" where
  "get_dummies fmt data columns prefix =
     (let not_found = filter (\<lambda>c. c \<notin> set (names data)) columns in
      if not_found \<noteq> [] then Inl (KeyError not_found)
      else if length prefix \<noteq> length columns then Inl ValueError
      else Inr (data\<lparr>cols :=
             filter (\<lambda>(n, vs). n \<notin> set columns) (cols data) @
             concat (map (\<lambda>(c, p). get_dummies_1d fmt (column data c) p) (zip columns prefix))\<rparr>))"

subsection \<open>Arithmetic on columns\<close>

definition is_str :: "cell \<Rightarrow> bool" where
  "is_str c = (case c of Str s \<Rightarrow> True | _ \<Rightarrow> False)"

text \<open>
  The arithmetic of one cell, for operands that are not strings: the missing marker
  propagates, the infinities follow IEEE 754. A zero denominator is the float \<^verbatim>\<open>+0.0\<close>
  (a sum \<^verbatim>\<open>x + 1e-6\<close> is never \<^verbatim>\<open>-0.0\<close>).
\<close>

fun cell_add :: "cell \<Rightarrow> rat \<Rightarrow> cell" where
  "cell_add (Num x) q = Num (x + q)"
| "cell_add c q = c"

fun cell_div :: "cell \<Rightarrow> cell \<Rightarrow> cell" where
  "cell_div (Num x) (Num y) =
     (if y \<noteq> 0 then Num (x / y) else if 0 < x then PInf else if x < 0 then NInf else NaN)"
| "cell_div (Num x) PInf = Num 0"
| "cell_div (Num x) NInf = Num 0"
| "cell_div PInf (Num y) = (if 0 \<le> y then PInf else NInf)"
| "cell_div NInf (Num y) = (if 0 \<le> y then NInf else PInf)"
| "cell_div a b = NaN"

fun cell_mul :: "cell \<Rightarrow> cell \<Rightarrow> cell" where
  "cell_mul (Num x) (Num y) = Num (x * y)"
| "cell_mul (Num x) PInf = (if 0 < x then PInf else if x < 0 then NInf else NaN)"
| "cell_mul (Num x) NInf = (if 0 < x then NInf else if x < 0 then PInf else NaN)"
| "cell_mul PInf (Num y) = (if 0 < y then PInf else if y < 0 then NInf else NaN)"
| "cell_mul NInf (Num y) = (if 0 < y then NInf else if y < 0 then PInf else NaN)"
| "cell_mul PInf PInf = PInf"
| "cell_mul PInf NInf = NInf"
| "cell_mul NInf PInf = NInf"
| "cell_mul NInf NInf = PInf"
| "cell_mul a b = NaN"

fun cell_sq :: "cell \<Rightarrow> cell" where
  "cell_sq (Num x) = Num (x ^ 2)"
| "cell_sq PInf = PInf"
| "cell_sq NInf = PInf"
| "cell_sq c = NaN"

text \<open>
  The operations on whole columns. A string operand raises \<^verbatim>\<open>TypeError\<close>, as Python's
  \<^verbatim>\<open>str + float\<close>, \<^verbatim>\<open>str / float\<close>, \<^verbatim>\<open>float * str\<close> and \<^verbatim>\<open>str ** int\<close> do (numbers are taken as
  floats here: the repetition \<^verbatim>\<open>int * str\<close> of an \<^verbatim>\<open>int64\<close> column is not modelled).
\<close>

definition series_add :: "cell list \<Rightarrow> rat \<Rightarrow> error + cell list" where
  "series_add xs q = (if list_ex is_str xs then Inl TypeError else Inr (map (\<lambda>x. cell_add x q) xs))"

definition series_div :: "cell list \<Rightarrow> cell list \<Rightarrow> error + cell list" where
  "series_div xs ys =
     (if list_ex is_str xs \<or> list_ex is_str ys then Inl TypeError
      else Inr (map (\<lambda>(x, y). cell_div x y) (zip xs ys)))"

definition series_mul :: "cell list \<Rightarrow> cell list \<Rightarrow> error + cell list" where
  "series_mul xs ys =
     (if list_ex is_str xs \<or> list_ex is_str ys then Inl TypeError
      else Inr (map (\<lambda>(x, y). cell_mul x y) (zip xs ys)))"

definition series_sq :: "cell list \<Rightarrow> error + cell list" where
  "series_sq xs = (if list_ex is_str xs then Inl TypeError else Inr (map cell_sq xs))"

subsection \<open>The feature deriver\<close>

definition nominal_cols :: "string list" where
  "nominal_cols = [''gender'', ''course'', ''internet_access'', ''study_method'']"

text \<open>The float literal \<^verbatim>\<open>1e-6\<close>, as the exact rational.\<close>

definition eps :: rat where
  "eps = 1 / 1000000"

text \<open>
  \<^verbatim>\<open>create_features\<close>, statement by statement. In \<^verbatim>\<open>a / (b + 1e-6)\<close> Python reads
  \<^verbatim>\<open>df['class_attendance']\<close> first, then \<^verbatim>\<open>df['study_hours']\<close>, then adds, then divides.
\<close>

definition create_features :: "(rat \<Rightarrow> string) \<Rightarrow> dataframe \<Rightarrow> error + dataframe" where
  "create_features fmt df =
     ebind (getitem df ''sleep_quality'') (\<lambda>sq.
     let df1 = setitem df ''sleep_quality'' (series_map sleep_quality_mapping sq) in
     ebind (getitem df1 ''facility_rating'') (\<lambda>fr.
     let df2 = setitem df1 ''facility_rating'' (series_map facility_rating_mapping fr) in
     ebind (getitem df2 ''exam_difficulty'') (\<lambda>ed.
     let df3 = setitem df2 ''exam_difficulty'' (series_map exam_difficulty_mapping ed) in
     ebind (get_dummies fmt df3 nominal_cols nominal_cols) (\<lambda>df4.
     ebind (getitem df4 ''class_attendance'') (\<lambda>ca.
     ebind (getitem df4 ''study_hours'') (\<lambda>sh.
     ebind (series_add sh eps) (\<lambda>den.
     ebind (series_div ca den) (\<lambda>eff.
     let df5 = setitem df4 ''study_efficiency'' eff in
     ebind (getitem df5 ''study_hours'') (\<lambda>sh5.
     ebind (getitem df5 ''sleep_hours'') (\<lambda>sl.
     ebind (series_mul sh5 sl) (\<lambda>inter.
     let df6 = setitem df5 ''study_sleep_interaction'' inter in
     ebind (getitem df6 ''study_hours'') (\<lambda>sh6.
     ebind (series_sq sh6) (\<lambda>shsq.
     let df7 = setitem df6 ''study_hours_sq'' shsq in
     ebind (getitem df7 ''class_attendance'') (\<lambda>ca7.
     ebind (series_sq ca7) (\<lambda>casq.
     Inr (setitem df7 ''class_attendance_sq'' casq))))))))))))))))"

subsection \<open>The pipeline\<close>


text \<open>
  A table on a given list of column names: the table's own column where it has one,
  a column of missing markers otherwise.
\<close>

definition reindexed_col :: "dataframe \<Rightarrow> string \<Rightarrow> cell list" where
  "reindexed_col df n =
     (case map_of (cols df) n of Some vs \<Rightarrow> vs | None \<Rightarrow> replicate (nrows df) NaN)"

definition reindex :: "dataframe \<Rightarrow> string list \<Rightarrow> dataframe" where
  "reindex df ns = \<lparr>nrows = nrows df, cols = map (\<lambda>n. (n, reindexed_col df n)) ns\<rparr>"

definition union_names :: "dataframe \<Rightarrow> dataframe \<Rightarrow> string list" where
  "union_names a b = names a @ filter (\<lambda>n. n \<notin> set (names a)) (names b)"

text \<open>
  \<^verbatim>\<open>pd.concat([a, b], ignore_index=True)\<close>: the rows of \<open>a\<close>, then the rows of \<open>b\<close>, on
  the union of the columns in order of first appearance; a column that one table lacks is
  missing in that table's rows.
\<close>

definition concat_rows :: "dataframe \<Rightarrow> dataframe \<Rightarrow> dataframe" where
  "concat_rows a b =
     \<lparr>nrows = nrows a + nrows b,
      cols = map (\<lambda>n. (n, reindexed_col a n @ reindexed_col b n)) (union_names a b)\<rparr>"

text \<open>\<^verbatim>\<open>df.iloc[:n]\<close> and \<^verbatim>\<open>df.iloc[n:]\<close>, for \<open>n\<close> a length (not negative).\<close>

definition iloc_to :: "nat \<Rightarrow> dataframe \<Rightarrow> dataframe" where
  "iloc_to n df = \<lparr>nrows = min n (nrows df), cols = map (\<lambda>(k, vs). (k, take n vs)) (cols df)\<rparr>"

definition iloc_from :: "nat \<Rightarrow> dataframe \<Rightarrow> dataframe" where
  "iloc_from n df = \<lparr>nrows = nrows df - n, cols = map (\<lambda>(k, vs). (k, drop n vs)) (cols df)\<rparr>"



section \<open>Rows\<close>

text \<open>The rows of a table: row \<open>i\<close> pairs every column name with the column's value there.\<close>

type_synonym row = "(string \<times> cell) list"

definition row :: "dataframe \<Rightarrow> nat \<Rightarrow> row" where
  "row df i = map (\<lambda>(n, vs). (n, vs ! i)) (cols df)"

definition rows :: "dataframe \<Rightarrow> row list" where
  "rows df = map (row df) [0..<nrows df]"








section \<open>Closed forms\<close>

text \<open>
  The names that \<^verbatim>\<open>create_features\<close> reads and the names it writes, and what the three
  stages of a run without error compute. These are auxiliary: lemma
  \<open>create_features_Inr\<close> below shows that \<^verbatim>\<open>create_features\<close> returns a table exactly when
  all ten columns are present and the three numeric ones hold no string, and that the
  table is then \<open>featured fmt df\<close>.
\<close>

definition ordinal_cols :: "string list" where
  "ordinal_cols = [''sleep_quality'', ''facility_rating'', ''exam_difficulty'']"

definition numeric_cols :: "string list" where
  "numeric_cols = [''study_hours'', ''class_attendance'', ''sleep_hours'']"

definition required_cols :: "string list" where
  "required_cols = ordinal_cols @ nominal_cols @ numeric_cols"


definition not_dummy :: "string \<Rightarrow> bool" where
  "not_dummy k \<longleftrightarrow> list_all (\<lambda>p. take (length p + 1) k \<noteq> p @ ''_'') nominal_cols"

definition ordinal_encoded :: "dataframe \<Rightarrow> dataframe" where
  "ordinal_encoded df =
     setitem (setitem (setitem df
       ''sleep_quality'' (series_map sleep_quality_mapping (column df ''sleep_quality'')))
       ''facility_rating'' (series_map facility_rating_mapping (column df ''facility_rating'')))
       ''exam_difficulty'' (series_map exam_difficulty_mapping (column df ''exam_difficulty''))"

definition dummy_block :: "(rat \<Rightarrow> string) \<Rightarrow> dataframe \<Rightarrow> string \<Rightarrow> (string \<times> cell list) list" where
  "dummy_block fmt df c = get_dummies_1d fmt (column df c) c"

definition one_hot_encoded :: "(rat \<Rightarrow> string) \<Rightarrow> dataframe \<Rightarrow> dataframe" where
  "one_hot_encoded fmt df =
     df\<lparr>cols := filter (\<lambda>(n, vs). n \<notin> set nominal_cols) (cols df) @
                 concat (map (dummy_block fmt df) nominal_cols)\<rparr>"

definition efficiency :: "dataframe \<Rightarrow> cell list" where
  "efficiency df =
     map (\<lambda>(a, h). cell_div a (cell_add h eps))
       (zip (column df ''class_attendance'') (column df ''study_hours''))"

definition interaction :: "dataframe \<Rightarrow> cell list" where
  "interaction df =
     map (\<lambda>(h, s). cell_mul h s) (zip (column df ''study_hours'') (column df ''sleep_hours''))"

definition derived_added :: "dataframe \<Rightarrow> dataframe \<Rightarrow> dataframe" where
  "derived_added df0 df =
     setitem (setitem (setitem (setitem df
       ''study_efficiency'' (efficiency df0))
       ''study_sleep_interaction'' (interaction df0))
       ''study_hours_sq'' (map cell_sq (column df0 ''study_hours'')))
       ''class_attendance_sq'' (map cell_sq (column df0 ''class_attendance''))"

definition featured :: "(rat \<Rightarrow> string) \<Rightarrow> dataframe \<Rightarrow> dataframe" where
  "featured fmt df = derived_added df (one_hot_encoded fmt (ordinal_encoded df))"

definition rect :: "dataframe \<Rightarrow> bool" where
  "rect df \<longleftrightarrow> list_all (\<lambda>(n, vs). length vs = nrows df) (cols df)"

definition without_label :: "dataframe \<Rightarrow> dataframe" where
  "without_label df = df\<lparr>cols := filter (\<lambda>(n, vs). n \<notin> set [''exam_score'']) (cols df)\<rparr>"

section \<open>Example tables\<close>

text \<open>
  Small tables on which the functions are run: inputs, and the results that the runs are
  shown to return. \<open>ex_fmt\<close> stands for the printing of numeric categories; none of the
  examples has one.
\<close>

definition ex_df :: dataframe where
 "ex_df = \<lparr>nrows = 3, cols = [
   (''id'', [Num 1, Num 2, Num 3]),
   (''gender'', [NaN, Str ''female'', Str ''male'']),
   (''course'', [Str ''bsc'', Str ''bsc'', Str ''bsc'']),
   (''study_hours'', [Num 0, Num 2, Num 3]),
   (''class_attendance'', [Num 10, NaN, Num 90]),
   (''internet_access'', [Str ''yes'', Str ''no'', Str ''yes'']),
   (''sleep_hours'', [Num 7, Num 8, Num 9]),
   (''sleep_quality'', [Str ''poor'', Str ''Good'', Str ''good'']),
   (''study_method'', [Str ''video'', Str ''group'', Str ''self'']),
   (''facility_rating'', [Str ''low'', Str ''medium'', Str ''high'']),
   (''exam_difficulty'', [Str ''easy'', Str ''moderate'', Str ''hard''])]\<rparr>"






definition ex_fmt :: "rat \<Rightarrow> string" where
  "ex_fmt q = ''#''"








definition ex_no_gender :: dataframe where
 "ex_no_gender = \<lparr>nrows = 3, cols = [
   (''id'', [Num 1, Num 2, Num 3]),
   (''course'', [Str ''bsc'', Str ''bsc'', Str ''bsc'']),
   (''study_hours'', [Num 0, Num 2, Num 3]),
   (''class_attendance'', [Num 10, NaN, Num 90]),
   (''internet_access'', [Str ''yes'', Str ''no'', Str ''yes'']),
   (''sleep_hours'', [Num 7, Num 8, Num 9]),
   (''sleep_quality'', [Str ''poor'', Str ''Good'', Str ''good'']),
   (''study_method'', [Str ''video'', Str ''group'', Str ''self'']),
   (''facility_rating'', [Str ''low'', Str ''medium'', Str ''high'']),
   (''exam_difficulty'', [Str ''easy'', Str ''moderate'', Str ''hard''])]\<rparr>"

definition ex_no_sleep :: dataframe where
 "ex_no_sleep = \<lparr>nrows = 3, cols = [
   (''id'', [Num 1, Num 2, Num 3]),
   (''gender'', [NaN, Str ''female'', Str ''male'']),
   (''course'', [Str ''bsc'', Str ''bsc'', Str ''bsc'']),
   (''study_hours'', [Str ''none'', Num 2, Num 3]),
   (''class_attendance'', [Num 10, NaN, Num 90]),
   (''internet_access'', [Str ''yes'', Str ''no'', Str ''yes'']),
   (''sleep_quality'', [Str ''poor'', Str ''Good'', Str ''good'']),
   (''study_method'', [Str ''video'', Str ''group'', Str ''self'']),
   (''facility_rating'', [Str ''low'', Str ''medium'', Str ''high'']),
   (''exam_difficulty'', [Str ''easy'', Str ''moderate'', Str ''hard''])]\<rparr>"

section \<open>Basic facts\<close>

lemma ebind_Inr: "ebind m f = Inr y \<longleftrightarrow> (\<exists>x. m = Inr x \<and> f x = Inr y)"
  by (cases m) (simp_all add: ebind_def)

lemma ebind_Inl: "ebind m f = Inl e \<longleftrightarrow> m = Inl e \<or> (\<exists>x. m = Inr x \<and> f x = Inl e)"
  by (cases m) (simp_all add: ebind_def)

lemma map_of_cols_None: "map_of (cols df) k = None \<longleftrightarrow> k \<notin> set (names df)"
  by (simp add: names_def map_of_eq_None_iff)

lemma getitem_Inr: "getitem df k = Inr vs \<longleftrightarrow> map_of (cols df) k = Some vs"
  by (simp add: getitem_def split: option.splits)

lemma getitem_Inl: "getitem df k = Inl e \<longleftrightarrow> k \<notin> set (names df) \<and> e = KeyError [k]"
  by (cases "map_of (cols df) k") (auto simp: getitem_def map_of_cols_None[symmetric])

lemma getitem_column: "getitem df k = Inr vs \<Longrightarrow> column df k = vs"
  by (simp add: getitem_Inr column_def)

lemma getitem_in_names: "getitem df k = Inr vs \<Longrightarrow> k \<in> set (names df)"
  by (auto simp: getitem_Inr names_def dest: map_of_SomeD intro: rev_image_eqI)

lemma in_names_getitem: "k \<in> set (names df) \<Longrightarrow> getitem df k = Inr (column df k)"
  by (cases "map_of (cols df) k") (auto simp: getitem_def column_def names_def map_of_eq_None_iff)



lemma getitem_mem: "getitem df k = Inr vs \<Longrightarrow> (k, vs) \<in> set (cols df)"
  by (auto simp: getitem_Inr dest: map_of_SomeD)


lemma map_of_replace:
  "map_of (map (\<lambda>(n, ws). if n = k then (n, vs) else (n, ws)) xs) j =
     (if j = k then (if k \<in> fst ` set xs then Some vs else None) else map_of xs j)"
  by (induction xs) (auto simp: rev_image_eqI)

lemma nrows_setitem [simp]: "nrows (setitem df k vs) = nrows df"
  by (simp add: setitem_def)

lemma names_setitem:
  "names (setitem df k vs) = (if k \<in> set (names df) then names df else names df @ [k])"
  by (auto simp: setitem_def names_def intro!: map_idI split: prod.splits)

lemma getitem_setitem_same [simp]: "getitem (setitem df k vs) k = Inr vs"
proof (cases "k \<in> set (names df)")
  case True
  then show ?thesis
    by (auto simp: getitem_Inr setitem_def names_def map_of_replace)
next
  case False
  then have "map_of (cols df) k = None"
    by (simp add: map_of_cols_None)
  with False show ?thesis
    by (simp add: getitem_Inr setitem_def map_add_def)
qed

lemma getitem_setitem_other [simp]: "j \<noteq> k \<Longrightarrow> getitem (setitem df k vs) j = getitem df j"
  by (auto simp: getitem_def setitem_def names_def map_of_replace map_add_def split: option.splits)

lemma column_setitem_other [simp]: "j \<noteq> k \<Longrightarrow> column (setitem df k vs) j = column df j"
  by (auto simp: column_def setitem_def names_def map_of_replace map_add_def split: option.splits)


lemma length_series_map [simp]: "length (series_map m vs) = length vs"
  by (simp add: series_map_def)

lemma dummy_name_take: "take (length p + 1) (dummy_name fmt p l) = p @ ''_''"
  by (simp add: dummy_name_def)

lemma not_dummyD: "not_dummy k \<Longrightarrow> p \<in> set nominal_cols \<Longrightarrow> k \<noteq> dummy_name fmt p l"
  using dummy_name_take[of p fmt l] by (auto simp: not_dummy_def list_all_iff)

lemma get_dummies_1d_eq:
  "get_dummies_1d fmt vs p =
     map (\<lambda>l. (dummy_name fmt p l, map (\<lambda>c. indicator (c = l)) vs)) (tl (levels vs))"
  by (cases "levels vs"; cases "tl (levels vs)") (auto simp: get_dummies_1d_def Let_def drop_Suc)

lemma dummy_block_names:
  "(n, ws) \<in> set (dummy_block fmt df p) \<Longrightarrow> \<exists>l. n = dummy_name fmt p l"
  by (auto simp: dummy_block_def get_dummies_1d_eq)

lemma not_dummy_block: "not_dummy k \<Longrightarrow> p \<in> set nominal_cols \<Longrightarrow> k \<notin> fst ` set (dummy_block fmt df p)"
  by (auto dest!: dummy_block_names dest: not_dummyD)

lemma not_dummy_blocks:
  "not_dummy k \<Longrightarrow> k \<notin> fst ` set (concat (map (dummy_block fmt df) nominal_cols))"
proof
  assume nd: "not_dummy k" and "k \<in> fst ` set (concat (map (dummy_block fmt df) nominal_cols))"
  then obtain p where "p \<in> set nominal_cols" "k \<in> fst ` set (dummy_block fmt df p)"
    by auto
  with nd show False
    using not_dummy_block by blast
qed

lemma map_of_filter_append:
  "P k \<Longrightarrow> k \<notin> fst ` set ys \<Longrightarrow> map_of (filter (\<lambda>(n, v). P n) xs @ ys) k = map_of xs k"
proof -
  assume a: "P k" "k \<notin> fst ` set ys"
  have 1: "map_of (filter (\<lambda>(n, v). P n) xs) k = map_of xs k"
    using a(1) by (induction xs) auto
  have 2: "map_of ys k = None"
    using a(2) by (simp add: map_of_eq_None_iff)
  show ?thesis by (simp add: map_add_def 1 2 split: option.splits)
qed

lemma get_dummies_Inr:
  "get_dummies fmt df nominal_cols nominal_cols = Inr df4 \<longleftrightarrow>
     set nominal_cols \<subseteq> set (names df) \<and> df4 = one_hot_encoded fmt df"
proof -
  have z: "map (\<lambda>(c, p). get_dummies_1d fmt (column df c) p) (zip nominal_cols nominal_cols)
        = map (dummy_block fmt df) nominal_cols"
    by (simp add: nominal_cols_def dummy_block_def)
  show ?thesis
    unfolding get_dummies_def one_hot_encoded_def z Let_def
    by (auto simp: filter_empty_conv)
qed

lemma get_dummies_Inl:
  "get_dummies fmt df nominal_cols nominal_cols = Inl e \<longleftrightarrow>
     \<not> set nominal_cols \<subseteq> set (names df) \<and> e = KeyError (filter (\<lambda>c. c \<notin> set (names df)) nominal_cols)"
  unfolding get_dummies_def Let_def
  by (auto simp: filter_empty_conv)

lemma nrows_one_hot [simp]: "nrows (one_hot_encoded fmt df) = nrows df"
  by (simp add: one_hot_encoded_def)

lemma getitem_one_hot:
  "k \<notin> set nominal_cols \<Longrightarrow> not_dummy k \<Longrightarrow> getitem (one_hot_encoded fmt df) k = getitem df k"
  unfolding getitem_def one_hot_encoded_def
  using map_of_filter_append[of "\<lambda>n. n \<notin> set nominal_cols" k "concat (map (dummy_block fmt df) nominal_cols)" "cols df"]
    not_dummy_blocks[of k fmt df]
  by simp

lemma column_one_hot:
  "k \<notin> set nominal_cols \<Longrightarrow> not_dummy k \<Longrightarrow> column (one_hot_encoded fmt df) k = column df k"
  unfolding column_def one_hot_encoded_def
  using map_of_filter_append[of "\<lambda>n. n \<notin> set nominal_cols" k "concat (map (dummy_block fmt df) nominal_cols)" "cols df"]
    not_dummy_blocks[of k fmt df]
  by simp

lemma not_dummy_simps [simp]:
  "not_dummy ''sleep_quality''" "not_dummy ''facility_rating''" "not_dummy ''exam_difficulty''"
  "not_dummy ''study_hours''" "not_dummy ''class_attendance''" "not_dummy ''sleep_hours''"
  "not_dummy ''study_efficiency''" "not_dummy ''study_sleep_interaction''"
  "not_dummy ''study_hours_sq''" "not_dummy ''class_attendance_sq''"
  "not_dummy ''gender''" "not_dummy ''course''" "not_dummy ''internet_access''"
  "not_dummy ''study_method''" "not_dummy ''exam_score''"
  by (simp_all add: not_dummy_def nominal_cols_def)




lemma getitem_Inr_iff: "getitem df k = Inr vs \<longleftrightarrow> k \<in> set (names df) \<and> vs = column df k"
  using in_names_getitem[of k df] getitem_in_names[of df k vs] by auto

lemma is_str_cell_add [simp]: "is_str (cell_add x q) = is_str x"
  by (cases x) (simp_all add: is_str_def)

lemma series_add_Inr:
  "series_add xs q = Inr ys \<longleftrightarrow> \<not> list_ex is_str xs \<and> ys = map (\<lambda>x. cell_add x q) xs"
  by (auto simp: series_add_def)

lemma series_div_Inr:
  "series_div xs ys = Inr zs \<longleftrightarrow>
     \<not> list_ex is_str xs \<and> \<not> list_ex is_str ys \<and> zs = map (\<lambda>(x, y). cell_div x y) (zip xs ys)"
  by (auto simp: series_div_def)

lemma series_mul_Inr:
  "series_mul xs ys = Inr zs \<longleftrightarrow>
     \<not> list_ex is_str xs \<and> \<not> list_ex is_str ys \<and> zs = map (\<lambda>(x, y). cell_mul x y) (zip xs ys)"
  by (auto simp: series_mul_def)

lemma series_sq_Inr: "series_sq xs = Inr ys \<longleftrightarrow> \<not> list_ex is_str xs \<and> ys = map cell_sq xs"
  by (auto simp: series_sq_def)

lemma names_one_hot_mem:
  "k \<notin> set nominal_cols \<Longrightarrow> not_dummy k \<Longrightarrow>
     k \<in> set (names (one_hot_encoded fmt df)) \<longleftrightarrow> k \<in> set (names df)"
  using getitem_one_hot[of k fmt df] getitem_Inr_iff[of "one_hot_encoded fmt df" k] getitem_Inr_iff[of df k]
  by (metis)



lemma nominal_mem_simps [simp]:
  "''sleep_quality'' \<notin> set nominal_cols" "''facility_rating'' \<notin> set nominal_cols"
  "''exam_difficulty'' \<notin> set nominal_cols" "''study_hours'' \<notin> set nominal_cols"
  "''class_attendance'' \<notin> set nominal_cols" "''sleep_hours'' \<notin> set nominal_cols"
  "''study_efficiency'' \<notin> set nominal_cols" "''study_sleep_interaction'' \<notin> set nominal_cols"
  "''study_hours_sq'' \<notin> set nominal_cols" "''class_attendance_sq'' \<notin> set nominal_cols"
  "''exam_score'' \<notin> set nominal_cols"
  by (simp_all add: nominal_cols_def)


lemma fst_row [simp]: "map fst (row df i) = names df"
  by (simp add: row_def names_def split_def)










lemma nrows_ordinal_encoded [simp]: "nrows (ordinal_encoded df) = nrows df"
  by (simp add: ordinal_encoded_def)

lemma nrows_derived_added [simp]: "nrows (derived_added df0 df) = nrows df"
  by (simp add: derived_added_def)

lemma nrows_featured [simp]: "nrows (featured fmt df) = nrows df"
  by (simp add: featured_def)













lemma wf_rect: "well_formed df \<Longrightarrow> rect df"
  by (simp add: well_formed_def rect_def)







lemma nrows_without_label [simp]: "nrows (without_label df) = nrows df"
  by (simp add: without_label_def)




lemma nrows_concat_rows [simp]: "nrows (concat_rows a b) = nrows a + nrows b"
  by (simp add: concat_rows_def)



lemma length_rows [simp]: "length (rows df) = nrows df"
  by (simp add: rows_def)

lemma nth_rows [simp]: "i < nrows df \<Longrightarrow> rows df ! i = row df i"
  by (simp add: rows_def)

lemma nrows_reindex [simp]: "nrows (reindex df ns) = nrows df"
  by (simp add: reindex_def)


lemma nrows_iloc_to [simp]: "nrows (iloc_to n df) = min n (nrows df)"
  by (simp add: iloc_to_def)

lemma nrows_iloc_from [simp]: "nrows (iloc_from n df) = nrows df - n"
  by (simp add: iloc_from_def)

lemma names_iloc_to [simp]: "names (iloc_to n df) = names df"
  by (simp add: iloc_to_def names_def comp_def split_def)

lemma names_iloc_from [simp]: "names (iloc_from n df) = names df"
  by (simp add: iloc_from_def names_def comp_def split_def)






























lemma not_str_ops [simp]:
  "\<not> is_str (cell_div a b)" "\<not> is_str (cell_mul a b)" "\<not> is_str (cell_sq a)"
  by (cases a; cases b; simp add: is_str_def)+



lemma ex_columns [simp]:
  "column ex_df ''study_hours'' = [Num 0, Num 2, Num 3]"
  "column ex_df ''class_attendance'' = [Num 10, NaN, Num 90]"
  "column ex_df ''sleep_hours'' = [Num 7, Num 8, Num 9]"
  by (simp_all add: ex_df_def column_def)





lemma series_add_Inl: "series_add xs q = Inl e \<longleftrightarrow> list_ex is_str xs \<and> e = TypeError"
  by (auto simp: series_add_def)

lemma series_div_Inl:
  "series_div xs ys = Inl e \<longleftrightarrow> (list_ex is_str xs \<or> list_ex is_str ys) \<and> e = TypeError"
  by (auto simp: series_div_def)

lemma series_mul_Inl:
  "series_mul xs ys = Inl e \<longleftrightarrow> (list_ex is_str xs \<or> list_ex is_str ys) \<and> e = TypeError"
  by (auto simp: series_mul_def)

lemma series_sq_Inl: "series_sq xs = Inl e \<longleftrightarrow> list_ex is_str xs \<and> e = TypeError"
  by (auto simp: series_sq_def)

lemma set_names_setitem: "set (names (setitem df k vs)) = insert k (set (names df))"
  by (auto simp: names_setitem)

lemma list_ex_add [simp]: "list_ex is_str (map (\<lambda>x. cell_add x q) xs) = list_ex is_str xs"
  by (simp add: list_ex_iff)

lemmas err_simps = create_features_def Let_def ebind_Inl ebind_Inr getitem_Inl getitem_Inr_iff
  get_dummies_Inl get_dummies_Inr series_add_Inr series_div_Inr series_mul_Inr series_sq_Inr
  series_add_Inl series_div_Inl series_mul_Inl series_sq_Inl
  set_names_setitem names_one_hot_mem column_one_hot

lemma create_features_error:
  assumes "\<not> set required_cols \<subseteq> set (names df)"
  shows "\<exists>e. create_features fmt df = Inl e \<and>
           (if set ordinal_cols \<subseteq> set (names df) \<and> set nominal_cols \<subseteq> set (names df) \<and>
               ''class_attendance'' \<in> set (names df) \<and> ''study_hours'' \<in> set (names df) \<and>
               (list_ex is_str (column df ''study_hours'') \<or>
                list_ex is_str (column df ''class_attendance''))
            then e = TypeError
            else \<exists>ks. e = KeyError ks \<and> ks \<noteq> [] \<and> set ks \<subseteq> set required_cols \<and>
                   set ks \<inter> set (names df) = {})"
proof -
  let ?N = "set (names df)"
  have r: "set ordinal_cols \<subseteq> set required_cols" "set nominal_cols \<subseteq> set required_cols"
    "set numeric_cols \<subseteq> set required_cols"
    by (auto simp: required_cols_def)
  consider (sq) "''sleep_quality'' \<notin> ?N"
    | (fr) "''sleep_quality'' \<in> ?N" "''facility_rating'' \<notin> ?N"
    | (ed) "''sleep_quality'' \<in> ?N" "''facility_rating'' \<in> ?N" "''exam_difficulty'' \<notin> ?N"
    | (nom) "set ordinal_cols \<subseteq> ?N" "\<not> set nominal_cols \<subseteq> ?N"
    | (ca) "set ordinal_cols \<subseteq> ?N" "set nominal_cols \<subseteq> ?N" "''class_attendance'' \<notin> ?N"
    | (sh) "set ordinal_cols \<subseteq> ?N" "set nominal_cols \<subseteq> ?N" "''class_attendance'' \<in> ?N"
        "''study_hours'' \<notin> ?N"
    | (sl) "set ordinal_cols \<subseteq> ?N" "set nominal_cols \<subseteq> ?N" "''class_attendance'' \<in> ?N"
        "''study_hours'' \<in> ?N" "''sleep_hours'' \<notin> ?N"
    using assms by (auto simp: required_cols_def ordinal_cols_def numeric_cols_def)
  then show ?thesis
  proof cases
    case sq
    then have "create_features fmt df = Inl (KeyError [''sleep_quality''])"
      by (simp add: err_simps)
    moreover have "''sleep_quality'' \<in> set required_cols" "\<not> set ordinal_cols \<subseteq> ?N"
      using sq r(1) by (auto simp: ordinal_cols_def)
    ultimately show ?thesis
      using sq by simp
  next
    case fr
    then have "create_features fmt df = Inl (KeyError [''facility_rating''])"
      by (simp add: err_simps)
    moreover have "''facility_rating'' \<in> set required_cols" "\<not> set ordinal_cols \<subseteq> ?N"
      using fr r(1) by (auto simp: ordinal_cols_def)
    ultimately show ?thesis
      using fr by simp
  next
    case ed
    then have "create_features fmt df = Inl (KeyError [''exam_difficulty''])"
      by (simp add: err_simps)
    moreover have "''exam_difficulty'' \<in> set required_cols" "\<not> set ordinal_cols \<subseteq> ?N"
      using ed r(1) by (auto simp: ordinal_cols_def)
    ultimately show ?thesis
      using ed by simp
  next
    case nom
    let ?ks = "filter (\<lambda>c. c \<notin> ?N) nominal_cols"
    have "create_features fmt df = Inl (KeyError ?ks)"
      using nom by (simp add: err_simps ordinal_cols_def insert_absorb)
    moreover have "?ks \<noteq> []" "set ?ks \<subseteq> set required_cols" "set ?ks \<inter> ?N = {}"
      using nom(2) r(2) by (auto simp: filter_empty_conv)
    ultimately show ?thesis
      using nom(2) by simp
  next
    case ca
    then have "create_features fmt df = Inl (KeyError [''class_attendance''])"
      by (simp add: err_simps ordinal_cols_def insert_absorb)
    moreover have "''class_attendance'' \<in> set required_cols"
      using r(3) by (simp add: numeric_cols_def)
    ultimately show ?thesis
      using ca(3) by simp
  next
    case sh
    then have "create_features fmt df = Inl (KeyError [''study_hours''])"
      by (simp add: err_simps ordinal_cols_def insert_absorb)
    moreover have "''study_hours'' \<in> set required_cols"
      using r(3) by (simp add: numeric_cols_def)
    ultimately show ?thesis
      using sh(4) by simp
  next
    case sl
    show ?thesis
    proof (cases "list_ex is_str (column df ''study_hours'') \<or>
                list_ex is_str (column df ''class_attendance'')")
      case True
      with sl have "create_features fmt df = Inl TypeError"
        by (simp add: err_simps ordinal_cols_def insert_absorb) auto
      with True sl show ?thesis by simp
    next
      case False
      with sl have "create_features fmt df = Inl (KeyError [''sleep_hours''])"
        by (simp add: err_simps ordinal_cols_def insert_absorb)
      moreover have "''sleep_hours'' \<in> set required_cols"
        using r(3) by (simp add: numeric_cols_def)
      ultimately show ?thesis
        using False sl(5) by simp
    qed
  qed
qed

lemma ex_no_gender_wf: "well_formed ex_no_gender"
  by (simp add: ex_no_gender_def well_formed_def names_def)

lemma ex_no_sleep_wf: "well_formed ex_no_sleep"
  by (simp add: ex_no_sleep_def well_formed_def names_def)

lemma ex_no_sleep_run: "create_features fmt ex_no_sleep = Inl TypeError"
  unfolding ex_no_sleep_def by code_simp



lemma sorted_levels: "sorted (map cell_key (levels vs))"
  by (simp add: levels_def)

lemma levels_hd_least:
  assumes "l \<in> set (levels vs)"
  shows "cell_key (hd (levels vs)) \<le> cell_key l"
proof (cases "levels vs")
  case Nil
  with assms show ?thesis by simp
next
  case (Cons x xs)
  with sorted_levels [of vs] assms show ?thesis by auto
qed

lemma indicator_one [simp]: "indicator b = Num 1 \<longleftrightarrow> b"
  by (simp add: indicator_def)

lemma indicator_zero [simp]: "indicator b = Num 0 \<longleftrightarrow> \<not> b"
  by (simp add: indicator_def)




lemma dummy_block_eq:
  "dummy_block fmt df c =
     map (\<lambda>l. (dummy_name fmt c l, map (\<lambda>x. indicator (x = l)) (column df c)))
       (tl (levels (column df c)))"
  by (simp add: dummy_block_def get_dummies_1d_eq)



lemma dummy_block_prefix:
  "(n, ws) \<in> set (dummy_block fmt df c) \<Longrightarrow> take (length c + 1) n = c @ ''_''"
  by (auto simp: dummy_block_eq dummy_name_def)








lemma cell_key_str: "cell_key (Str a) \<le> cell_key (Str b) \<longleftrightarrow> a \<le> b"
  by simp

lemma ex_gender [simp]:
  "column ex_df ''gender'' = [NaN, Str ''female'', Str ''male'']"
  "levels [NaN, Str ''female'', Str ''male''] = [Str ''female'', Str ''male'']"
  by (simp_all add: ex_df_def column_def levels_def)

section \<open>Claims\<close>






















text \<open>
  C8 (amended). For every record set that lacks at least one of the ten columns that
  \<^verbatim>\<open>create_features\<close> reads, the call fails and returns no table. The error is a
  \<^verbatim>\<open>KeyError\<close> naming one or more of the missing columns, with one exception: when
  every column read before \<^verbatim>\<open>sleep_hours\<close> is present (so \<^verbatim>\<open>sleep_hours\<close> is the only missing
  one) and \<^verbatim>\<open>study_hours\<close> or \<^verbatim>\<open>class_attendance\<close> holds a string, the arithmetic of the
  first derived feature raises \<^verbatim>\<open>TypeError\<close> before \<^verbatim>\<open>sleep_hours\<close> is read.
\<close>

theorem missing_column_fails:
  assumes "well_formed df" and "\<not> set required_cols \<subseteq> set (names df)"
  shows "\<exists>e. create_features fmt df = Inl e \<and>
           (if set ordinal_cols \<subseteq> set (names df) \<and> set nominal_cols \<subseteq> set (names df) \<and>
               ''class_attendance'' \<in> set (names df) \<and> ''study_hours'' \<in> set (names df) \<and>
               (list_ex is_str (column df ''study_hours'') \<or>
                list_ex is_str (column df ''class_attendance''))
            then e = TypeError
            else \<exists>ks. e = KeyError ks \<and> ks \<noteq> [] \<and> set ks \<subseteq> set required_cols \<and>
                   set ks \<inter> set (names df) = {})"
  using assms(2) by (rule create_features_error)

theorem missing_column_fails_witness:
  "well_formed ex_no_gender \<and> \<not> set required_cols \<subseteq> set (names ex_no_gender) \<and>
   (\<exists>ks. create_features ex_fmt ex_no_gender = Inl (KeyError ks) \<and> ks \<noteq> [] \<and>
         set ks \<subseteq> set required_cols \<and> set ks \<inter> set (names ex_no_gender) = {})"
proof -
  have n: "\<not> set required_cols \<subseteq> set (names ex_no_gender)"
    by (simp add: required_cols_def nominal_cols_def ex_no_gender_def names_def)
  have m: "\<not> set nominal_cols \<subseteq> set (names ex_no_gender)"
    by (simp add: nominal_cols_def ex_no_gender_def names_def)
  from missing_column_fails [OF ex_no_gender_wf n, of ex_fmt] ex_no_gender_wf n
  show ?thesis
    using m by auto
qed

text \<open>
  As the claim was stated, the error always identifies the missing column. Here
  \<^verbatim>\<open>sleep_hours\<close> is missing and \<^verbatim>\<open>study_hours\<close> holds a string: the error is the
  \<^verbatim>\<open>TypeError\<close> of \<^verbatim>\<open>df['study_hours'] + 1e-6\<close>.
\<close>

theorem missing_column_type_error:
  "well_formed ex_no_sleep \<and> length required_cols = 10 \<and>
   ''sleep_hours'' \<in> set required_cols \<and> ''sleep_hours'' \<notin> set (names ex_no_sleep) \<and>
   getitem ex_no_sleep ''study_hours'' = Inr [Str ''none'', Num 2, Num 3] \<and>
   create_features ex_fmt ex_no_sleep = Inl TypeError"
  using ex_no_sleep_wf ex_no_sleep_run [of ex_fmt]
  by (simp add: ex_no_sleep_def names_def getitem_def required_cols_def ordinal_cols_def
      nominal_cols_def numeric_cols_def)




end
